theory Spec2Isabelle
  imports Complex_Main "HOL-Library.Log_Nat"
begin

section \<open>The notification engine of CropYieldAI (notification-service.ts)\<close>

text \<open>
  The development embeds the class \<open>NotificationService\<close>: the notification
  records, the delivery dispatcher, the bounded store, the query and mutation
  operations, the analytics aggregator and the price normaliser.

  Conventions of the embedding.
  \<^item> A \<open>Date\<close> is its number of milliseconds since the epoch, an \<open>int\<close>; every
    \<open>new Date()\<close> of the source reads the field \<open>now\<close> of the environment.
  \<^item> A JavaScript \<open>number\<close> that the code only compares with constants
    (\<open>changePercentage\<close>) is a \<open>real\<close>. The rates of the analytics are
    computed with the division and multiplication of IEEE doubles; these are
    embedded with their rounding, and with NaN and the infinities, as the
    type \<open>jsnumber\<close>.
  \<^item> The human text of a notification (\<open>title\<close>, \<open>message\<close>,
    \<open>detailedMessage\<close>, \<open>actionText\<close>, \<open>actionUrl\<close>, \<open>location\<close>, \<open>data\<close>) is never
    read by the operations embedded here and is left out of the record.
  \<^item> What the browser decides is a field of the environment record \<open>Env\<close>.
\<close>

subsection \<open>Data model\<close>

type_synonym time = int

datatype NotificationType = Weather | Price | Seasonal | Government | Disease | Irrigation | General

datatype Category = Alert | Warning | Info | Tip | Update

datatype Priority = Low | Medium | High | Critical

datatype ChannelName = Push | Sms | Email | InApp

text \<open>The string each enumeration value is at run time (the filters compare strings).\<close>

fun typeName :: "NotificationType \<Rightarrow> string" where
  "typeName Weather = ''weather''"
| "typeName Price = ''price''"
| "typeName Seasonal = ''seasonal''"
| "typeName Government = ''government''"
| "typeName Disease = ''disease''"
| "typeName Irrigation = ''irrigation''"
| "typeName General = ''general''"

fun categoryName :: "Category \<Rightarrow> string" where
  "categoryName Alert = ''alert''"
| "categoryName Warning = ''warning''"
| "categoryName Info = ''info''"
| "categoryName Tip = ''tip''"
| "categoryName Update = ''update''"

record DeliveryChannel =
  channel :: ChannelName
  enabled :: bool
  delivered :: bool
  deliveredAt :: "time option"
  error :: "string option"

record Notification =
  nid :: string
  ntype :: NotificationType
  category :: Category
  priority :: Priority
  timestamp :: time
  expiresAt :: "time option"
  isRead :: bool
  actionRequired :: bool
  relatedCrop :: "string option"
  deliveryChannels :: "DeliveryChannel list"

record PriceAlert =
  alertId :: string
  commodity :: string
  change :: real
  changePercentage :: real

text \<open>The browser's \<open>NotificationPermission\<close>; the service starts at \<open>Default\<close>.\<close>

datatype Permission = Default | Granted | Denied

text \<open>The \<open>timeframe\<close> argument of the analytics.\<close>

datatype Timeframe = Day | Week | Month

text \<open>What a JavaScript \<open>throw\<close> carries: an \<open>Error\<close> with its message, or any other value.\<close>

datatype thrown = ErrorObject string | OtherValue

text \<open>
  The environment of one call: the clock, whether the platform constructor
  \<open>new Notification(title, options)\<close> throws, whether \<open>localStorage.setItem\<close>
  throws (a full quota), and the instant that the calendar arithmetic of
  \<open>Date\<close> (\<open>setDate(getDate() - 1)\<close>, \<open>setDate(getDate() - 7)\<close>,
  \<open>setMonth(getMonth() - 1)\<close>, in local time) yields for each timeframe.
\<close>

record Env =
  now :: time
  constructorThrows :: "thrown option"
  setItemThrows :: bool
  startDate :: "Timeframe \<Rightarrow> time"

text \<open>
  The fields of the service that the operations read or write: the
  notification array, the permission, and the value under the key
  \<open>notifications\<close> of \<open>localStorage\<close> (\<open>None\<close> while the key is absent).
\<close>

record Service =
  notifications :: "Notification list"
  notificationPermission :: Permission
  persisted :: "Notification list option"

subsection \<open>Persistence\<close>

text \<open>
  \<open>saveNotificationsToStorage\<close> writes the first 50 notifications; an exception of
  \<open>setItem\<close> is caught and logged, so the call always returns.
\<close>

definition saveNotificationsToStorage :: "Env \<Rightarrow> Service \<Rightarrow> Service" where
  "saveNotificationsToStorage env s =
     (if setItemThrows env then s
      else s\<lparr>persisted := Some (take 50 (notifications s))\<rparr>)"

subsection \<open>Delivery\<close>

text \<open>
  \<open>sendPushNotification\<close> returns at once unless the permission is \<open>granted\<close>;
  otherwise it constructs the platform notification, which may throw.
\<close>

definition sendPushNotification :: "Env \<Rightarrow> Permission \<Rightarrow> Notification \<Rightarrow> thrown + unit" where
  "sendPushNotification env perm n =
     (if perm \<noteq> Granted then Inr ()
      else (case constructorThrows env of None \<Rightarrow> Inr () | Some t \<Rightarrow> Inl t))"

text \<open>The message the \<open>catch\<close> clause stores in \<open>channel.error\<close>.\<close>

fun errorMessage :: "thrown \<Rightarrow> string" where
  "errorMessage (ErrorObject m) = m"
| "errorMessage OtherValue = ''Delivery failed''"

text \<open>
  \<open>deliverThroughChannel\<close>: the \<open>switch\<close> on the channel name inside \<open>try\<close>, then
  \<open>delivered = true\<close> and \<open>deliveredAt = new Date()\<close>; the \<open>catch\<close> clause records
  the error instead. Only the push branch calls anything that can throw; the
  in-app, sms and email branches do nothing but log.
\<close>

definition markDelivered :: "Env \<Rightarrow> DeliveryChannel \<Rightarrow> DeliveryChannel" where
  "markDelivered env c = c\<lparr>delivered := True, deliveredAt := Some (now env)\<rparr>"

definition deliverThroughChannel ::
  "Env \<Rightarrow> Permission \<Rightarrow> Notification \<Rightarrow> DeliveryChannel \<Rightarrow> DeliveryChannel" where
  "deliverThroughChannel env perm n c =
     (case channel c of
        Push \<Rightarrow>
          (case sendPushNotification env perm n of
             Inr _ \<Rightarrow> markDelivered env c
           | Inl t \<Rightarrow> c\<lparr>error := Some (errorMessage t)\<rparr>)
      | InApp \<Rightarrow> markDelivered env c
      | Sms \<Rightarrow> markDelivered env c
      | Email \<Rightarrow> markDelivered env c)"

text \<open>The loop of \<open>sendNotification\<close> over the channels: only enabled ones are attempted.\<close>

definition dispatch :: "Env \<Rightarrow> Permission \<Rightarrow> Notification \<Rightarrow> Notification" where
  "dispatch env perm n =
     n\<lparr>deliveryChannels :=
         map (\<lambda>c. if enabled c then deliverThroughChannel env perm n c else c)
             (deliveryChannels n)\<rparr>"

text \<open>
  \<open>sendNotification\<close>: \<open>unshift\<close>, the cut to 100 entries, the dispatch, the save.
  The dispatch mutates the channel objects of the notification that \<open>unshift\<close>
  has just put at index 0, so the head of the array is what changes. Nothing
  awaited in the call waits for a timer or for input, so no other operation of
  the service runs between its steps. The event emitted at the end goes to
  the window and leaves the service as it is.
\<close>

definition sendNotification :: "Env \<Rightarrow> Notification \<Rightarrow> Service \<Rightarrow> Service" where
  "sendNotification env n s =
     (let unshifted = n # notifications s;
          capped = (if length unshifted > 100 then take 100 unshifted else unshifted);
          sent = capped[0 := dispatch env (notificationPermission s) n]
      in saveNotificationsToStorage env (s\<lparr>notifications := sent\<rparr>))"

subsection \<open>The price normaliser\<close>

text \<open>The notification literal built by \<open>createNotificationFromPriceAlert\<close>.\<close>

definition priceNotification :: "Env \<Rightarrow> PriceAlert \<Rightarrow> Notification" where
  "priceNotification env a =
     \<lparr> nid = ''notif_'' @ alertId a,
       ntype = Price,
       category = (if \<bar>changePercentage a\<bar> > 10 then Alert else Info),
       priority = (if \<bar>changePercentage a\<bar> > 15 then High else Medium),
       timestamp = now env,
       expiresAt = None,
       isRead = False,
       actionRequired = True,
       relatedCrop = Some (commodity a),
       deliveryChannels =
         [\<lparr> channel = Push, enabled = True, delivered = False, deliveredAt = None, error = None \<rparr>,
          \<lparr> channel = InApp, enabled = True, delivered = False, deliveredAt = None, error = None \<rparr>] \<rparr>"

definition createNotificationFromPriceAlert :: "Env \<Rightarrow> PriceAlert \<Rightarrow> Service \<Rightarrow> Service" where
  "createNotificationFromPriceAlert env a s = sendNotification env (priceNotification env a) s"

subsection \<open>Queries and mutations\<close>

text \<open>
  The optional argument \<open>filters\<close> and its optional fields. \<open>limit\<close> is an
  integer here: \<open>slice\<close> truncates its argument to one.
\<close>

record Filters =
  ftype :: "string option"
  fcategory :: "string option"
  fisRead :: "bool option"
  flimit :: "int option"

text \<open>\<open>filters?.field\<close>: undefined when \<open>filters\<close> is, else the field.\<close>

definition optField :: "Filters option \<Rightarrow> (Filters \<Rightarrow> 'a option) \<Rightarrow> 'a option" where
  "optField filters field = (case filters of None \<Rightarrow> None | Some f \<Rightarrow> field f)"

text \<open>
  \<open>xs.slice(0, k)\<close> of JavaScript: a negative \<open>k\<close> counts from the end, and
  both ends are clamped to the array.
\<close>

definition slice0 :: "int \<Rightarrow> 'a list \<Rightarrow> 'a list" where
  "slice0 k xs = (if k < 0 then take (nat (int (length xs) + k)) xs else take (nat k) xs)"

text \<open>
  \<open>getNotifications\<close>: the type and category filters apply when the string is
  truthy (defined and not empty), the read filter when it is defined, the
  limit when it is truthy (defined and not 0). \<open>userId\<close> is not used.
\<close>

definition getNotifications :: "string \<Rightarrow> Filters option \<Rightarrow> Service \<Rightarrow> Notification list" where
  "getNotifications userId filters s =
     (let filtered0 = notifications s;
          filtered1 = (case optField filters ftype of
                         Some t \<Rightarrow> if t \<noteq> [] then filter (\<lambda>n. typeName (ntype n) = t) filtered0
                                   else filtered0
                       | None \<Rightarrow> filtered0);
          filtered2 = (case optField filters fcategory of
                         Some c \<Rightarrow> if c \<noteq> [] then filter (\<lambda>n. categoryName (category n) = c) filtered1
                                   else filtered1
                       | None \<Rightarrow> filtered1);
          filtered3 = (case optField filters fisRead of
                         Some r \<Rightarrow> filter (\<lambda>n. isRead n = r) filtered2
                       | None \<Rightarrow> filtered2);
          filtered4 = (case optField filters flimit of
                         Some k \<Rightarrow> if k \<noteq> 0 then slice0 k filtered3 else filtered3
                       | None \<Rightarrow> filtered3)
      in filtered4)"

text \<open>\<open>markAsRead\<close>: \<open>find\<close> gives the first notification with the id; only that one is marked.\<close>

fun markFirst :: "string \<Rightarrow> Notification list \<Rightarrow> Notification list" where
  "markFirst i [] = []"
| "markFirst i (n # ns) = (if nid n = i then n\<lparr>isRead := True\<rparr> # ns else n # markFirst i ns)"

definition markAsRead :: "Env \<Rightarrow> string \<Rightarrow> Service \<Rightarrow> Service" where
  "markAsRead env notificationId s =
     (case find (\<lambda>n. nid n = notificationId) (notifications s) of
        None \<Rightarrow> s
      | Some _ \<Rightarrow>
          saveNotificationsToStorage env
            (s\<lparr>notifications := markFirst notificationId (notifications s)\<rparr>))"

definition markAllAsRead :: "Env \<Rightarrow> string \<Rightarrow> Service \<Rightarrow> Service" where
  "markAllAsRead env userId s =
     saveNotificationsToStorage env
       (s\<lparr>notifications := map (\<lambda>n. n\<lparr>isRead := True\<rparr>) (notifications s)\<rparr>)"

definition deleteNotification :: "Env \<Rightarrow> string \<Rightarrow> Service \<Rightarrow> Service" where
  "deleteNotification env notificationId s =
     saveNotificationsToStorage env
       (s\<lparr>notifications := filter (\<lambda>n. nid n \<noteq> notificationId) (notifications s)\<rparr>)"

definition getUnreadCount :: "string \<Rightarrow> Service \<Rightarrow> nat" where
  "getUnreadCount userId s = length (filter (\<lambda>n. \<not> isRead n) (notifications s))"

text \<open>\<open>cleanup\<close> keeps a notification when it has no expiry or expires after now.\<close>

definition cleanup :: "Env \<Rightarrow> Service \<Rightarrow> Service" where
  "cleanup env s =
     saveNotificationsToStorage env
       (s\<lparr>notifications :=
            filter (\<lambda>n. case expiresAt n of None \<Rightarrow> True | Some e \<Rightarrow> e > now env)
                   (notifications s)\<rparr>)"

subsection \<open>JavaScript numbers\<close>

text \<open>
  A \<open>number\<close> is an IEEE 754 double: a rational with a 53-bit significand,
  an infinity or NaN. Negative zero is not told apart from zero: the
  operands embedded here are counts and the constant 100.
\<close>

datatype jsnumber = Finite real | PosInfinity | NegInfinity | NaN

text \<open>\<open>pow2 d\<close> is 2 to the power \<open>d\<close>, for an exponent of either sign.\<close>

definition pow2 :: "int \<Rightarrow> real" where
  "pow2 d = (if d \<ge> 0 then 2 ^ nat d else 1 / 2 ^ nat (- d))"

text \<open>The binary exponent of a positive number: the \<open>e\<close> with \<open>2^e \<le> q < 2^(e+1)\<close>.\<close>

definition binaryExponent :: "real \<Rightarrow> int" where
  "binaryExponent q =
     (if q \<ge> 1 then bitlen \<lfloor>q\<rfloor> - 1
      else (let k = bitlen \<lfloor>1 / q\<rfloor> - 1 in if q = pow2 (- k) then - k else - (k + 1)))"

text \<open>Rounding to the nearest integer, a tie going to the even one.\<close>

definition roundHalfEven :: "real \<Rightarrow> int" where
  "roundHalfEven m =
     (let f = \<lfloor>m\<rfloor>; r = m - of_int f
      in if r < 1 / 2 then f else if r > 1 / 2 then f + 1 else if even f then f else f + 1)"

text \<open>
  Rounding a positive number to the nearest double: the unit in the last
  place is \<open>2^(e - 52)\<close>, and \<open>2^(-1074)\<close> in the subnormal range; a result
  of \<open>2^1024\<close> or more is the infinity.
\<close>

definition roundPositive :: "real \<Rightarrow> jsnumber" where
  "roundPositive q =
     (let e = binaryExponent q;
          u = pow2 (max (e - 52) (- 1074));
          v = of_int (roundHalfEven (q / u)) * u
      in if v \<ge> pow2 1024 then PosInfinity else Finite v)"

fun negate :: "jsnumber \<Rightarrow> jsnumber" where
  "negate (Finite x) = Finite (- x)"
| "negate PosInfinity = NegInfinity"
| "negate NegInfinity = PosInfinity"
| "negate NaN = NaN"

definition roundToDouble :: "real \<Rightarrow> jsnumber" where
  "roundToDouble q =
     (if q = 0 then Finite 0 else if q > 0 then roundPositive q else negate (roundPositive (- q)))"

text \<open>
  The operators \<open>/\<close> and \<open>*\<close> on numbers: the exact result rounded, with the
  special cases of IEEE 754 (\<open>0 / 0\<close> is NaN, \<open>x / 0\<close> an infinity).
\<close>

fun jsDivide :: "jsnumber \<Rightarrow> jsnumber \<Rightarrow> jsnumber" where
  "jsDivide (Finite x) (Finite y) =
     (if y = 0 then (if x = 0 then NaN else if x > 0 then PosInfinity else NegInfinity)
      else roundToDouble (x / y))"
| "jsDivide NaN _ = NaN"
| "jsDivide _ NaN = NaN"
| "jsDivide (Finite x) _ = Finite 0"
| "jsDivide PosInfinity (Finite y) = (if y \<ge> 0 then PosInfinity else NegInfinity)"
| "jsDivide NegInfinity (Finite y) = (if y \<ge> 0 then NegInfinity else PosInfinity)"
| "jsDivide _ _ = NaN"

fun jsMultiply :: "jsnumber \<Rightarrow> jsnumber \<Rightarrow> jsnumber" where
  "jsMultiply (Finite x) (Finite y) = roundToDouble (x * y)"
| "jsMultiply NaN _ = NaN"
| "jsMultiply _ NaN = NaN"
| "jsMultiply (Finite x) PosInfinity =
     (if x = 0 then NaN else if x > 0 then PosInfinity else NegInfinity)"
| "jsMultiply (Finite x) NegInfinity =
     (if x = 0 then NaN else if x > 0 then NegInfinity else PosInfinity)"
| "jsMultiply PosInfinity (Finite y) =
     (if y = 0 then NaN else if y > 0 then PosInfinity else NegInfinity)"
| "jsMultiply NegInfinity (Finite y) =
     (if y = 0 then NaN else if y > 0 then NegInfinity else PosInfinity)"
| "jsMultiply PosInfinity PosInfinity = PosInfinity"
| "jsMultiply NegInfinity NegInfinity = PosInfinity"
| "jsMultiply PosInfinity NegInfinity = NegInfinity"
| "jsMultiply NegInfinity PosInfinity = NegInfinity"

text \<open>The number that the \<open>length\<close> of an array is.\<close>

definition ofCount :: "nat \<Rightarrow> jsnumber" where
  "ofCount n = roundToDouble (real n)"

subsection \<open>Analytics\<close>

record Counts =
  cSent :: nat
  cDelivered :: nat
  cRead :: nat

record NotificationAnalytics =
  totalSent :: nat
  totalDelivered :: nat
  totalRead :: nat
  totalClicked :: nat
  deliveryRate :: jsnumber
  readRate :: jsnumber
  clickRate :: jsnumber
  byType :: "(NotificationType \<times> Counts) list"
  byPriority :: "(Priority \<times> Counts) list"
  mostEngagingType :: NotificationType
  bestTimeToSend :: string
  userPreferences :: "(string \<times> nat) list"

text \<open>\<open>n.deliveryChannels.some(c => c.delivered)\<close>.\<close>

definition someDelivered :: "Notification \<Rightarrow> bool" where
  "someDelivered n = list_ex delivered (deliveryChannels n)"

text \<open>
  The body of the two \<open>reduce\<close> calls. The accumulator is an object used as
  a dictionary; its keys keep insertion order, so it is an association list.
\<close>

definition countIn :: "Notification \<Rightarrow> Counts \<Rightarrow> Counts" where
  "countIn n c =
     \<lparr> cSent = cSent c + 1,
       cDelivered = (if someDelivered n then cDelivered c + 1 else cDelivered c),
       cRead = (if isRead n then cRead c + 1 else cRead c) \<rparr>"

fun addUnder :: "'k \<Rightarrow> Notification \<Rightarrow> ('k \<times> Counts) list \<Rightarrow> ('k \<times> Counts) list" where
  "addUnder k n [] = [(k, countIn n \<lparr> cSent = 0, cDelivered = 0, cRead = 0 \<rparr>)]"
| "addUnder k n ((k', c) # rest) =
     (if k' = k then (k', countIn n c) # rest else (k', c) # addUnder k n rest)"

definition groupCounts :: "(Notification \<Rightarrow> 'k) \<Rightarrow> Notification list \<Rightarrow> ('k \<times> Counts) list" where
  "groupCounts key ns = foldl (\<lambda>acc n. addUnder (key n) n acc) [] ns"

text \<open>\<open>byType[k]?.read || 0\<close>.\<close>

definition readOf :: "('k \<times> Counts) list \<Rightarrow> 'k \<Rightarrow> nat" where
  "readOf m k = (case map_of m k of None \<Rightarrow> 0 | Some c \<Rightarrow> cRead c)"

definition getNotificationAnalytics :: "Env \<Rightarrow> string \<Rightarrow> Timeframe \<Rightarrow> Service \<Rightarrow> NotificationAnalytics" where
  "getNotificationAnalytics env userId timeframe s =
     (let relevantNotifications = filter (\<lambda>n. timestamp n \<ge> startDate env timeframe) (notifications s);
          sent = length relevantNotifications;
          deliv = length (filter someDelivered relevantNotifications);
          rd = length (filter isRead relevantNotifications);
          types = groupCounts ntype relevantNotifications;
          prios = groupCounts priority relevantNotifications
      in \<lparr> totalSent = sent,
           totalDelivered = deliv,
           totalRead = rd,
           totalClicked = 0,
           deliveryRate =
             (if sent > 0 then jsMultiply (jsDivide (ofCount deliv) (ofCount sent)) (Finite 100)
              else Finite 0),
           readRate =
             (if deliv > 0 then jsMultiply (jsDivide (ofCount rd) (ofCount deliv)) (Finite 100)
              else Finite 0),
           clickRate = Finite 0,
           byType = types,
           byPriority = prios,
           mostEngagingType =
             foldl (\<lambda>a b. if readOf types a > readOf types b then a else b) Weather (map fst types),
           bestTimeToSend = ''08:00'',
           userPreferences =
             [(''weather'', 85), (''price'', 90), (''seasonal'', 60), (''government'', 70)] \<rparr>)"

subsection \<open>The query on a heap of shared objects\<close>

text \<open>
  The list model above identifies an array with its contents. What a caller
  can reach through the array that \<open>getNotifications\<close> returns depends on
  which objects are shared, so the query is embedded a second time over an
  explicit heap: notification objects and arrays live at addresses, an array
  holds addresses of objects, and allocation takes the next free address.
\<close>

type_synonym ref = nat

record Heap =
  objects :: "ref \<Rightarrow> Notification option"
  arrays :: "ref \<Rightarrow> ref list option"
  nextRef :: ref

definition readArray :: "Heap \<Rightarrow> ref \<Rightarrow> ref list" where
  "readArray h a = (case arrays h a of None \<Rightarrow> [] | Some rs \<Rightarrow> rs)"

definition newArray :: "ref list \<Rightarrow> Heap \<Rightarrow> ref \<times> Heap" where
  "newArray rs h =
     (nextRef h, h\<lparr>arrays := (arrays h)(nextRef h \<mapsto> rs), nextRef := Suc (nextRef h)\<rparr>)"

text \<open>A callback \<open>n => p(n)\<close> applied to the object at an address.\<close>

definition holds :: "Heap \<Rightarrow> (Notification \<Rightarrow> bool) \<Rightarrow> ref \<Rightarrow> bool" where
  "holds h p r = (case objects h r of None \<Rightarrow> False | Some n \<Rightarrow> p n)"

text \<open>\<open>filtered.filter(p)\<close> and \<open>filtered.slice(0, k)\<close>: each allocates a new array.\<close>

definition filterArray :: "(Notification \<Rightarrow> bool) \<Rightarrow> ref \<times> Heap \<Rightarrow> ref \<times> Heap" where
  "filterArray p ah = newArray (filter (holds (snd ah) p) (readArray (snd ah) (fst ah))) (snd ah)"

definition sliceArray :: "int \<Rightarrow> ref \<times> Heap \<Rightarrow> ref \<times> Heap" where
  "sliceArray k ah = newArray (slice0 k (readArray (snd ah) (fst ah))) (snd ah)"

text \<open>
  \<open>getNotifications\<close> on the heap; \<open>store\<close> is the address held by
  \<open>this.notifications\<close>. The spread \<open>[...this.notifications]\<close> allocates an array
  with the same addresses, not copies of the objects. The result is the
  address of the returned array and the heap after the call.
\<close>

definition getNotificationsH :: "string \<Rightarrow> Filters option \<Rightarrow> ref \<Rightarrow> Heap \<Rightarrow> ref \<times> Heap" where
  "getNotificationsH userId filters store h =
     (let filtered0 = newArray (readArray h store) h;
          filtered1 = (case optField filters ftype of
                         Some t \<Rightarrow> if t \<noteq> [] then filterArray (\<lambda>n. typeName (ntype n) = t) filtered0
                                   else filtered0
                       | None \<Rightarrow> filtered0);
          filtered2 = (case optField filters fcategory of
                         Some c \<Rightarrow> if c \<noteq> [] then filterArray (\<lambda>n. categoryName (category n) = c) filtered1
                                   else filtered1
                       | None \<Rightarrow> filtered1);
          filtered3 = (case optField filters fisRead of
                         Some r \<Rightarrow> filterArray (\<lambda>n. isRead n = r) filtered2
                       | None \<Rightarrow> filtered2);
          filtered4 = (case optField filters flimit of
                         Some k \<Rightarrow> if k \<noteq> 0 then sliceArray k filtered3 else filtered3
                       | None \<Rightarrow> filtered3)
      in filtered4)"

text \<open>The notifications an array shows: the objects at its addresses, in order.\<close>

definition contents :: "Heap \<Rightarrow> ref \<Rightarrow> Notification option list" where
  "contents h a = map (objects h) (readArray h a)"

text \<open>
  What a caller can do with the result: overwrite the returned array
  (assignment to an index, \<open>push\<close>, \<open>splice\<close>, \<open>length = 0\<close> all end in some new
  list of addresses), or assign a field of one of its records.
\<close>

definition writeArray :: "ref \<Rightarrow> ref list \<Rightarrow> Heap \<Rightarrow> Heap" where
  "writeArray a rs h = h\<lparr>arrays := (arrays h)(a \<mapsto> rs)\<rparr>"

definition writeIsRead :: "ref \<Rightarrow> bool \<Rightarrow> Heap \<Rightarrow> Heap" where
  "writeIsRead r b h =
     (case objects h r of
        None \<Rightarrow> h
      | Some n \<Rightarrow> h\<lparr>objects := (objects h)(r \<mapsto> n\<lparr>isRead := b\<rparr>)\<rparr>)"

subsection \<open>Sequences of calls and example inputs\<close>

text \<open>A sequence of \<open>sendNotification\<close> calls, each in its own environment.\<close>

fun sendAll :: "(Env \<times> Notification) list \<Rightarrow> Service \<Rightarrow> Service" where
  "sendAll [] s = s"
| "sendAll ((env, n) # rest) s = sendAll rest (sendNotification env n s)"

definition demoEnv :: Env where
  "demoEnv = \<lparr> now = 1000, constructorThrows = None, setItemThrows = False,
               startDate = (\<lambda>_. 0) \<rparr>"

definition emptyService :: Service where
  "emptyService = \<lparr> notifications = [], notificationPermission = Default, persisted = None \<rparr>"

definition riceAlert :: PriceAlert where
  "riceAlert = \<lparr> alertId = ''price_1'', commodity = ''Rice'', change = 240,
                 changePercentage = 12 \<rparr>"

definition unreadStub :: "string \<Rightarrow> Notification" where
  "unreadStub i =
     \<lparr> nid = i, ntype = General, category = Info, priority = Low, timestamp = 0,
       expiresAt = None, isRead = False, actionRequired = False, relatedCrop = None,
       deliveryChannels =
         [\<lparr> channel = InApp, enabled = True, delivered = False, deliveredAt = None,
            error = None \<rparr>] \<rparr>"


definition fullService :: Service where
  "fullService = \<lparr> notifications = replicate 100 (unreadStub ''old''),
                    notificationPermission = Default, persisted = None \<rparr>"

definition noFilters :: Filters where
  "noFilters = \<lparr> ftype = None, fcategory = None, fisRead = None, flimit = None \<rparr>"

definition expiredStub :: Notification where
  "expiredStub = (unreadStub ''expired'')\<lparr>expiresAt := Some 500\<rparr>"

definition expiryService :: Service where
  "expiryService =
     \<lparr> notifications = [unreadStub ''fresh'', expiredStub,
                          (unreadStub ''later'')\<lparr>expiresAt := Some 2000\<rparr>],
       notificationPermission = Default, persisted = None \<rparr>"

definition twoService :: Service where
  "twoService = \<lparr> notifications = [unreadStub ''a'', unreadStub ''b'', unreadStub ''a''],
                   notificationPermission = Default, persisted = None \<rparr>"

text \<open>A store of 20 notifications: 11 delivered, 4 of them read, and 9 not delivered.\<close>

definition deliveredStub :: "bool \<Rightarrow> Notification" where
  "deliveredStub r =
     (unreadStub ''d'')\<lparr>isRead := r, deliveryChannels :=
        [\<lparr> channel = InApp, enabled = True, delivered = True, deliveredAt = Some 0,
           error = None \<rparr>]\<rparr>"

definition analyticsService :: Service where
  "analyticsService =
     \<lparr> notifications = replicate 4 (deliveredStub True) @ replicate 7 (deliveredStub False)
                          @ replicate 9 (unreadStub ''u''),
       notificationPermission = Default, persisted = None \<rparr>"

text \<open>A heap with one unread notification at address 0 and the store's array at address 1.\<close>

definition sharedHeap :: Heap where
  "sharedHeap = \<lparr> objects = Map.empty(0 \<mapsto> unreadStub ''a''),
                   arrays = Map.empty(1 \<mapsto> [0]),
                   nextRef = 2 \<rparr>"

definition sharedQuery :: "ref \<times> Heap" where
  "sharedQuery = getNotificationsH ''farmer1'' None 1 sharedHeap"

subsection \<open>Invariants of the query on the heap\<close>

text \<open>
  \<open>extends h0 rs0 (a, h)\<close>: the heap \<open>h\<close> has the objects of \<open>h0\<close>, the array
  \<open>a\<close> was allocated after \<open>h0\<close>, every array of \<open>h0\<close> is as it was, and \<open>a\<close>
  holds addresses from \<open>rs0\<close> only.
\<close>

definition extends :: "Heap \<Rightarrow> ref list \<Rightarrow> ref \<times> Heap \<Rightarrow> bool" where
  "extends h0 rs0 ah \<longleftrightarrow>
     objects (snd ah) = objects h0 \<and> nextRef h0 \<le> fst ah \<and> fst ah < nextRef (snd ah)
     \<and> (\<forall>b < nextRef h0. arrays (snd ah) b = arrays h0 b)
     \<and> set (readArray (snd ah) (fst ah)) \<subseteq> set rs0"

text \<open>\<open>represents h0 ns (a, h)\<close>: the array \<open>a\<close> of \<open>h\<close> shows the list \<open>ns\<close>.\<close>

definition represents :: "Heap \<Rightarrow> Notification list \<Rightarrow> ref \<times> Heap \<Rightarrow> bool" where
  "represents h0 ns ah \<longleftrightarrow>
     objects (snd ah) = objects h0 \<and> contents (snd ah) (fst ah) = map Some ns"

section \<open>Properties\<close>

subsection \<open>Shared facts about \<open>sendNotification\<close>\<close>

lemma sendNotification_notifications:
  "notifications (sendNotification env n s) =
     dispatch env (notificationPermission s) n # take 99 (notifications s)"
  by (simp add: sendNotification_def saveNotificationsToStorage_def Let_def take_Cons')

lemma sendNotification_permission:
  "notificationPermission (sendNotification env n s) = notificationPermission s"
  by (simp add: sendNotification_def saveNotificationsToStorage_def Let_def)

lemma sendNotification_length:
  "length (notifications (sendNotification env n s)) \<le> 100"
  by (simp add: sendNotification_notifications)

lemma take_cap_append:
  "take 100 (xs @ d # take 99 ys) = take 100 (xs @ d # ys)"
  by (simp add: take_Cons' min_def)

lemma sendAll_notifications:
  "length (notifications s) \<le> 100 \<Longrightarrow>
   notifications (sendAll calls s) =
     take 100 (rev (map (\<lambda>(env, n). dispatch env (notificationPermission s) n) calls)
               @ notifications s)"
proof (induction calls s rule: sendAll.induct)
  case (1 s)
  then show ?case by simp
next
  case (2 env n rest s)
  have "notifications (sendAll rest (sendNotification env n s)) =
          take 100 (rev (map (\<lambda>(env, n). dispatch env (notificationPermission s) n) rest)
                    @ dispatch env (notificationPermission s) n # take 99 (notifications s))"
    using "2.IH" [OF sendNotification_length]
    by (simp add: sendNotification_notifications sendNotification_permission)
  also have "\<dots> =
          take 100 (rev (map (\<lambda>(env, n). dispatch env (notificationPermission s) n) rest)
                    @ dispatch env (notificationPermission s) n # notifications s)"
    by (rule take_cap_append)
  finally show ?case
    by simp
qed

lemma sendAll_length:
  "length (notifications s) \<le> 100 \<Longrightarrow> length (notifications (sendAll calls s)) \<le> 100"
  by (simp add: sendAll_notifications)

subsection \<open>Delivery outcomes\<close>

text \<open>
  Claim C1 (push without permission). The claim says that a push attempt
  without granted permission leaves \<open>delivered = false\<close>. The code does
  otherwise: \<open>sendPushNotification\<close> returns early, and
  \<open>deliverThroughChannel\<close> then sets \<open>delivered = true\<close> and \<open>deliveredAt\<close>, with no
  error, for permission \<open>default\<close> as for \<open>denied\<close>. The last conjunct runs
  the price normaliser and \<open>sendNotification\<close> on a service whose permission was
  never granted: both the push and the in-app entry end up delivered.
\<close>

theorem push_without_permission_marked_delivered:
  "deliverThroughChannel env Default n (c\<lparr>channel := Push\<rparr>)
     = c\<lparr>channel := Push, delivered := True, deliveredAt := Some (now env)\<rparr>
   \<and> deliverThroughChannel env Denied n (c\<lparr>channel := Push\<rparr>)
     = c\<lparr>channel := Push, delivered := True, deliveredAt := Some (now env)\<rparr>
   \<and> map (\<lambda>c. (channel c, delivered c, error c))
        (deliveryChannels (hd (notifications
           (createNotificationFromPriceAlert demoEnv riceAlert emptyService))))
     = [(Push, True, None), (InApp, True, None)]"
  by (simp add: deliverThroughChannel_def sendPushNotification_def markDelivered_def
      createNotificationFromPriceAlert_def sendNotification_notifications dispatch_def
      priceNotification_def emptyService_def demoEnv_def riceAlert_def)






subsection \<open>The capacity of the store\<close>

text \<open>
  Claim C3 (capacity). Starting from a store of at most 100 notifications,
  the store holds at most 100 after every prefix of a sequence of
  \<open>sendNotification\<close> calls; one call puts the new notification (with its
  delivery outcome) at the head and keeps the 99 most recent of the old ones;
  after the whole sequence the store is the first 100 of the new
  notifications, latest first, followed by the old ones, so what is dropped
  is the tail, the earliest appended.
\<close>

theorem store_capacity:
  assumes "length (notifications s) \<le> 100"
  shows "length (notifications (sendAll (take k calls) s)) \<le> 100
       \<and> notifications (sendNotification env n s)
           = dispatch env (notificationPermission s) n # take 99 (notifications s)
       \<and> notifications (sendAll calls s)
           = take 100 (rev (map (\<lambda>(env, n). dispatch env (notificationPermission s) n) calls)
                       @ notifications s)"
  using assms by (simp add: sendAll_length sendAll_notifications sendNotification_notifications)

theorem store_capacity_witness:
  "length (notifications fullService) \<le> 100
   \<and> length (notifications (sendAll (take 1 [(demoEnv, unreadStub ''new'')]) fullService)) \<le> 100
   \<and> notifications (sendNotification demoEnv (unreadStub ''new'') fullService)
        = dispatch demoEnv Default (unreadStub ''new'') # replicate 99 (unreadStub ''old'')
   \<and> notifications (sendAll [(demoEnv, unreadStub ''new'')] fullService)
        = dispatch demoEnv Default (unreadStub ''new'') # replicate 99 (unreadStub ''old'')"
proof -
  have h: "length (notifications fullService) \<le> 100"
    by (simp add: fullService_def)
  show ?thesis
    using h store_capacity [OF h, of 1 "[(demoEnv, unreadStub ''new'')]" demoEnv "unreadStub ''new''"]
    by (simp add: fullService_def)
qed

subsection \<open>The price normaliser\<close>

text \<open>
  Claim C4 (price thresholds). The notification built from a price alert
  has category alert when the absolute change percentage exceeds 10 and info
  otherwise, and priority high when it exceeds 15 and medium otherwise; the
  notification at the head of the store after \<open>createNotificationFromPriceAlert\<close>
  has the same category and priority; at 12 percent the category is alert and
  the priority medium.
\<close>

theorem price_alert_thresholds:
  "category (priceNotification env a) = (if \<bar>changePercentage a\<bar> > 10 then Alert else Info)
   \<and> priority (priceNotification env a) = (if \<bar>changePercentage a\<bar> > 15 then High else Medium)
   \<and> category (hd (notifications (createNotificationFromPriceAlert env a s)))
       = category (priceNotification env a)
   \<and> priority (hd (notifications (createNotificationFromPriceAlert env a s)))
       = priority (priceNotification env a)
   \<and> category (priceNotification env (a\<lparr>changePercentage := 12\<rparr>)) = Alert
   \<and> priority (priceNotification env (a\<lparr>changePercentage := 12\<rparr>)) = Medium"
  by (simp add: priceNotification_def createNotificationFromPriceAlert_def
      sendNotification_notifications dispatch_def)

subsection \<open>Marking as read\<close>

text \<open>
  Claim C6 (mark all as read). \<open>markAllAsRead\<close> sets \<open>isRead\<close> on every
  notification of the store, whatever the user id, and changes nothing else in
  them; the unread count of any user is 0 right afterwards.
\<close>

theorem markAllAsRead_marks_everything:
  "notifications (markAllAsRead env u s) = map (\<lambda>n. n\<lparr>isRead := True\<rparr>) (notifications s)
   \<and> map isRead (notifications (markAllAsRead env u s))
       = replicate (length (notifications s)) True
   \<and> getUnreadCount u' (markAllAsRead env u s) = 0"
  by (simp add: markAllAsRead_def saveNotificationsToStorage_def getUnreadCount_def
      map_replicate_const o_def)

lemma markFirst_idem: "markFirst i (markFirst i ns) = markFirst i ns"
  by (induction ns) simp_all

lemma find_markFirst:
  "find (\<lambda>n. nid n = i) (markFirst i ns)
     = map_option (\<lambda>n. n\<lparr>isRead := True\<rparr>) (find (\<lambda>n. nid n = i) ns)"
  by (induction ns) simp_all

lemma markFirst_absent:
  "find (\<lambda>n. nid n = i) ns = None \<Longrightarrow> markFirst i ns = ns"
  by (induction ns) (simp_all split: if_splits)

lemma markAsRead_notifications:
  "notifications (markAsRead env i s) = markFirst i (notifications s)"
  by (cases "find (\<lambda>n. nid n = i) (notifications s)")
     (simp_all add: markAsRead_def saveNotificationsToStorage_def markFirst_absent)

lemma filter_absent:
  "i \<notin> nid ` set ns \<Longrightarrow> filter (\<lambda>n. nid n \<noteq> i) ns = ns"
  by (induction ns) auto

text \<open>
  Claim C8 (idempotence). Marking an id as read twice gives the state that
  marking it once gives (and the same notifications even when the two calls
  run in different environments). For an id \<open>j\<close> that no notification of the
  store has, \<open>deleteNotification\<close> leaves the notifications and the permission
  as they are: all it does is save again; \<open>markAsRead\<close> on such an id changes
  nothing at all. Both operations are total functions of the state: the only
  call that can throw, \<open>setItem\<close>, is caught.
\<close>

theorem markAsRead_delete_idempotent:
  assumes "j \<notin> nid ` set (notifications s)"
  shows "markAsRead env i (markAsRead env i s) = markAsRead env i s
       \<and> notifications (markAsRead env' i (markAsRead env i s)) = notifications (markAsRead env i s)
       \<and> notifications (deleteNotification env j s) = notifications s
       \<and> notificationPermission (deleteNotification env j s) = notificationPermission s
       \<and> deleteNotification env j s = saveNotificationsToStorage env s
       \<and> markAsRead env j s = s"
proof -
  have a: "markAsRead env i (markAsRead env i s) = markAsRead env i s"
    by (cases "find (\<lambda>n. nid n = i) (notifications s)")
       (simp_all add: markAsRead_def saveNotificationsToStorage_def find_markFirst markFirst_idem)
  have b: "notifications (markAsRead env' i (markAsRead env i s)) = notifications (markAsRead env i s)"
    by (simp add: markAsRead_notifications markFirst_idem)
  have c: "deleteNotification env j s = saveNotificationsToStorage env s"
    using assms by (simp add: deleteNotification_def filter_absent)
  have d: "find (\<lambda>n. nid n = j) (notifications s) = None"
    using assms by (auto simp: find_None_iff)
  from a b c d show ?thesis
    by (simp add: markAsRead_def saveNotificationsToStorage_def)
qed

theorem markAsRead_delete_idempotent_witness:
  "''zzz'' \<notin> nid ` set (notifications twoService)
   \<and> markAsRead demoEnv ''a'' (markAsRead demoEnv ''a'' twoService)
       = markAsRead demoEnv ''a'' twoService
   \<and> notifications (markAsRead demoEnv ''a'' twoService)
       = [(unreadStub ''a'')\<lparr>isRead := True\<rparr>, unreadStub ''b'', unreadStub ''a'']
   \<and> notifications (deleteNotification demoEnv ''zzz'' twoService) = notifications twoService"
proof -
  have h: "''zzz'' \<notin> nid ` set (notifications twoService)"
    by (simp add: twoService_def unreadStub_def)
  have m: "notifications (markAsRead demoEnv ''a'' twoService)
       = [(unreadStub ''a'')\<lparr>isRead := True\<rparr>, unreadStub ''b'', unreadStub ''a'']"
    by (simp add: markAsRead_def saveNotificationsToStorage_def twoService_def unreadStub_def
        demoEnv_def)
  show ?thesis
    using h m markAsRead_delete_idempotent [OF h, of demoEnv "''a''" demoEnv]
    by (simp add: saveNotificationsToStorage_def)
qed

subsection \<open>Analytics\<close>

lemma someDelivered_iff:
  "someDelivered n \<longleftrightarrow> True \<in> delivered ` set (deliveryChannels n)"
  by (auto simp: someDelivered_def list_ex_iff)

text \<open>Evaluation of the double arithmetic on numerals.\<close>

lemma bitlen_one: "bitlen 1 = 1"
  by (subst compute_bitlen) simp

lemma bitlen_Bit0: "bitlen (numeral (Num.Bit0 n)) = bitlen (numeral n) + 1"
  by (subst compute_bitlen) simp

lemma bitlen_Bit1: "bitlen (numeral (Num.Bit1 n)) = bitlen (numeral n) + 1"
  by (subst compute_bitlen) simp

lemmas double_eval = ofCount_def roundToDouble_def roundPositive_def
  roundHalfEven_def binaryExponent_def pow2_def Let_def bitlen_one bitlen_Bit0 bitlen_Bit1

text \<open>The rounding on known doubles: one tenth, the largest double, the underflow to 0.\<close>

lemma roundToDouble_examples:
  "roundToDouble (1 / 10) = Finite (3602879701896397 / 2 ^ 55)"
  "roundToDouble (2 ^ 1024 - 2 ^ 971) = Finite (2 ^ 1024 - 2 ^ 971)"
  "roundToDouble (2 ^ 1024 - 2 ^ 970) = PosInfinity"
  "roundToDouble (1 / 2 ^ 1075) = Finite 0"
  "roundToDouble (3 / 2 ^ 1075) = Finite (2 / 2 ^ 1074)"
  by (simp_all add: double_eval)

lemma roundHalfEven_of_int: "roundHalfEven (of_int z) = z"
  by (simp add: roundHalfEven_def)

text \<open>A count below \<open>2^53\<close> is a double as it is; the length of an array is below \<open>2^32\<close>.\<close>

lemma ofCount_exact:
  assumes "n < 2 ^ 53"
  shows "ofCount n = Finite (real n)"
proof (cases "n = 0")
  case True
  then show ?thesis by (simp add: ofCount_def roundToDouble_def)
next
  case False
  then have pos: "0 < int n" by simp
  define b where "b = bitlen (int n)"
  from bitlen_bounds [OF pos] have lo: "2 ^ nat (b - 1) \<le> int n" and hi: "int n < 2 ^ nat b"
    by (simp_all add: b_def)
  have b1: "1 \<le> b"
    using pos by (simp add: b_def bitlen_alt_def)
  have "int n < 2 ^ 53"
    using assms by (metis of_nat_less_iff of_nat_numeral of_nat_power)
  with lo have lt: "(2::int) ^ nat (b - 1) < 2 ^ 53"
    by linarith
  have "nat (b - 1) < 53"
    by (rule power_less_imp_less_exp [OF _ lt]) simp
  then have b53: "b \<le> 53" by simp
  define k where "k = nat (53 - b)"
  have e: "binaryExponent (real n) = b - 1"
    using False by (simp add: binaryExponent_def b_def)
  have u: "pow2 (max (b - 1 - 52) (- 1074)) = 1 / 2 ^ k"
  proof (cases "b = 53")
    case True
    then show ?thesis by (simp add: pow2_def k_def)
  next
    case False
    with b53 have "b - 1 - 52 < 0" "nat (- (b - 1 - 52)) = k"
      by (simp_all add: k_def)
    then show ?thesis
      using b1 by (simp add: pow2_def max_def)
  qed
  have q: "real n / (1 / 2 ^ k) = of_int (int n * 2 ^ k)"
    by simp
  have v: "of_int (roundHalfEven (real n / (1 / 2 ^ k))) * (1 / 2 ^ k) = real n"
    unfolding q roundHalfEven_of_int by simp
  have "real n < 2 ^ 53"
    using assms by (metis of_nat_less_iff of_nat_numeral of_nat_power)
  also have "\<dots> \<le> (2::real) ^ 1024"
    by (rule power_increasing) simp_all
  finally have small: "\<not> pow2 1024 \<le> real n"
    by (simp add: pow2_def)
  have "roundPositive (real n) = Finite (real n)"
    unfolding roundPositive_def Let_def e u v using small by simp
  then show ?thesis
    using False by (simp add: ofCount_def roundToDouble_def)
qed

text \<open>The five fields of the result that the counts determine.\<close>

lemma analytics_fields:
  "totalSent (getNotificationAnalytics env u tf s)
     = length (filter (\<lambda>n. startDate env tf \<le> timestamp n) (notifications s))"
  "totalDelivered (getNotificationAnalytics env u tf s)
     = length (filter someDelivered
                 (filter (\<lambda>n. startDate env tf \<le> timestamp n) (notifications s)))"
  "totalRead (getNotificationAnalytics env u tf s)
     = length (filter isRead (filter (\<lambda>n. startDate env tf \<le> timestamp n) (notifications s)))"
  "deliveryRate (getNotificationAnalytics env u tf s)
     = (if totalSent (getNotificationAnalytics env u tf s) = 0 then Finite 0
        else jsMultiply
               (jsDivide (ofCount (totalDelivered (getNotificationAnalytics env u tf s)))
                         (ofCount (totalSent (getNotificationAnalytics env u tf s))))
               (Finite 100))"
  "readRate (getNotificationAnalytics env u tf s)
     = (if totalDelivered (getNotificationAnalytics env u tf s) = 0 then Finite 0
        else jsMultiply
               (jsDivide (ofCount (totalRead (getNotificationAnalytics env u tf s)))
                         (ofCount (totalDelivered (getNotificationAnalytics env u tf s))))
               (Finite 100))"
  by (simp_all add: getNotificationAnalytics_def Let_def)

text \<open>
  Claim C5 (analytics). For every user id and timeframe: \<open>totalSent\<close> is the
  number of notifications whose timestamp is not before the start of the
  window, \<open>totalDelivered\<close> the number of those with some delivered channel,
  \<open>totalRead\<close> the number of those that are read; \<open>deliveryRate\<close> is
  \<open>totalDelivered / totalSent * 100\<close>, and 0 when nothing was sent; \<open>readRate\<close>
  is \<open>totalRead / totalDelivered * 100\<close>, and 0 when nothing was delivered.
  The division and the multiplication are those of doubles, each rounding its
  result. The last three conjuncts fix what that means: without the guard the
  quotient of two zero counts would be NaN, not 0; 11 delivered of 20 sent
  give the double next above 55; 4 read of 7 delivered give the double
  nearest to 400/7.
\<close>

theorem analytics_totals_and_rates:
  "totalSent (getNotificationAnalytics env u tf s)
     = length (filter (\<lambda>n. startDate env tf \<le> timestamp n) (notifications s))
   \<and> totalDelivered (getNotificationAnalytics env u tf s)
     = length (filter (\<lambda>n. True \<in> delivered ` set (deliveryChannels n))
                 (filter (\<lambda>n. startDate env tf \<le> timestamp n) (notifications s)))
   \<and> totalRead (getNotificationAnalytics env u tf s)
     = length (filter isRead (filter (\<lambda>n. startDate env tf \<le> timestamp n) (notifications s)))
   \<and> deliveryRate (getNotificationAnalytics env u tf s)
     = (if totalSent (getNotificationAnalytics env u tf s) = 0 then Finite 0
        else jsMultiply
               (jsDivide (ofCount (totalDelivered (getNotificationAnalytics env u tf s)))
                         (ofCount (totalSent (getNotificationAnalytics env u tf s))))
               (Finite 100))
   \<and> readRate (getNotificationAnalytics env u tf s)
     = (if totalDelivered (getNotificationAnalytics env u tf s) = 0 then Finite 0
        else jsMultiply
               (jsDivide (ofCount (totalRead (getNotificationAnalytics env u tf s)))
                         (ofCount (totalDelivered (getNotificationAnalytics env u tf s))))
               (Finite 100))
   \<and> jsMultiply (jsDivide (ofCount 0) (ofCount 0)) (Finite 100) = NaN
   \<and> jsMultiply (jsDivide (ofCount 11) (ofCount 20)) (Finite 100) = Finite (55 + 1 / 2 ^ 47)
   \<and> jsMultiply (jsDivide (ofCount 4) (ofCount 7)) (Finite 100)
       = Finite (2010535547933257 / 2 ^ 45)"
proof -
  have "totalSent (getNotificationAnalytics env u tf s)
     = length (filter (\<lambda>n. startDate env tf \<le> timestamp n) (notifications s))
   \<and> totalDelivered (getNotificationAnalytics env u tf s)
     = length (filter (\<lambda>n. True \<in> delivered ` set (deliveryChannels n))
                 (filter (\<lambda>n. startDate env tf \<le> timestamp n) (notifications s)))
   \<and> totalRead (getNotificationAnalytics env u tf s)
     = length (filter isRead (filter (\<lambda>n. startDate env tf \<le> timestamp n) (notifications s)))
   \<and> deliveryRate (getNotificationAnalytics env u tf s)
     = (if totalSent (getNotificationAnalytics env u tf s) = 0 then Finite 0
        else jsMultiply
               (jsDivide (ofCount (totalDelivered (getNotificationAnalytics env u tf s)))
                         (ofCount (totalSent (getNotificationAnalytics env u tf s))))
               (Finite 100))
   \<and> readRate (getNotificationAnalytics env u tf s)
     = (if totalDelivered (getNotificationAnalytics env u tf s) = 0 then Finite 0
        else jsMultiply
               (jsDivide (ofCount (totalRead (getNotificationAnalytics env u tf s)))
                         (ofCount (totalDelivered (getNotificationAnalytics env u tf s))))
               (Finite 100))"
    by (simp add: analytics_fields someDelivered_iff)
  moreover have "jsMultiply (jsDivide (ofCount 0) (ofCount 0)) (Finite 100) = NaN"
    by (simp add: double_eval)
  moreover have "jsMultiply (jsDivide (ofCount 11) (ofCount 20)) (Finite 100)
       = Finite (55 + 1 / 2 ^ 47)"
    by (simp add: double_eval)
  moreover have "jsMultiply (jsDivide (ofCount 4) (ofCount 7)) (Finite 100)
       = Finite (2010535547933257 / 2 ^ 45)"
    by (simp add: double_eval)
  ultimately show ?thesis by simp
qed

text \<open>
  The aggregator on a store: 11 of 20 delivered is the double next above 55,
  4 of 11 read the double nearest to 400/11.
\<close>

lemma analytics_example:
  "totalSent (getNotificationAnalytics demoEnv ''farmer1'' Week analyticsService) = 20"
  "totalDelivered (getNotificationAnalytics demoEnv ''farmer1'' Week analyticsService) = 11"
  "totalRead (getNotificationAnalytics demoEnv ''farmer1'' Week analyticsService) = 4"
  "deliveryRate (getNotificationAnalytics demoEnv ''farmer1'' Week analyticsService)
     = Finite (55 + 1 / 2 ^ 47)"
  "readRate (getNotificationAnalytics demoEnv ''farmer1'' Week analyticsService)
     = Finite (5117726849284655 / 2 ^ 47)"
proof -
  have sent: "totalSent (getNotificationAnalytics demoEnv ''farmer1'' Week analyticsService) = 20"
    by (simp add: analytics_fields(1) analyticsService_def deliveredStub_def unreadStub_def
        demoEnv_def)
  have deliv:
    "totalDelivered (getNotificationAnalytics demoEnv ''farmer1'' Week analyticsService) = 11"
    by (simp add: analytics_fields(2) analyticsService_def deliveredStub_def unreadStub_def
        demoEnv_def someDelivered_def)
  have rd: "totalRead (getNotificationAnalytics demoEnv ''farmer1'' Week analyticsService) = 4"
    by (simp add: analytics_fields(3) analyticsService_def deliveredStub_def unreadStub_def
        demoEnv_def)
  have eleven_of_twenty:
    "jsMultiply (jsDivide (ofCount 11) (ofCount 20)) (Finite 100) = Finite (55 + 1 / 2 ^ 47)"
    by (simp add: double_eval)
  have four_of_eleven:
    "jsMultiply (jsDivide (ofCount 4) (ofCount 11)) (Finite 100)
       = Finite (5117726849284655 / 2 ^ 47)"
    by (simp add: double_eval)
  show "totalSent (getNotificationAnalytics demoEnv ''farmer1'' Week analyticsService) = 20"
    by (rule sent)
  show "totalDelivered (getNotificationAnalytics demoEnv ''farmer1'' Week analyticsService) = 11"
    by (rule deliv)
  show "totalRead (getNotificationAnalytics demoEnv ''farmer1'' Week analyticsService) = 4"
    by (rule rd)
  show "deliveryRate (getNotificationAnalytics demoEnv ''farmer1'' Week analyticsService)
     = Finite (55 + 1 / 2 ^ 47)"
    unfolding analytics_fields(4) sent deliv using eleven_of_twenty by simp
  show "readRate (getNotificationAnalytics demoEnv ''farmer1'' Week analyticsService)
     = Finite (5117726849284655 / 2 ^ 47)"
    unfolding analytics_fields(5) deliv rd using four_of_eleven by simp
qed

subsection \<open>Queries and expiry\<close>

lemma getNotifications_unfiltered:
  "getNotifications u None s = notifications s"
  "getNotifications u (Some noFilters) s = notifications s"
  by (simp_all add: getNotifications_def optField_def noFilters_def)

text \<open>
  Claim C7 (expiry). A notification of the store whose \<open>expiresAt\<close> is before
  the current time is still in the result of the query without filters (absent
  or empty \<open>filters\<close>), which is the whole store; it is not in the store after
  \<open>cleanup\<close>, and the store after \<open>cleanup\<close> is exactly, in order, the
  notifications that have no \<open>expiresAt\<close> or one strictly after the current time.
\<close>

theorem expiry_only_on_cleanup:
  assumes "n \<in> set (notifications s)" and "expiresAt n = Some e" and "e < now env"
  shows "getNotifications u None s = notifications s
       \<and> getNotifications u (Some noFilters) s = notifications s
       \<and> n \<in> set (getNotifications u (Some noFilters) s)
       \<and> n \<notin> set (notifications (cleanup env s))
       \<and> notifications (cleanup env s)
           = filter (\<lambda>m. expiresAt m = None \<or> (\<exists>x. expiresAt m = Some x \<and> now env < x))
               (notifications s)"
proof -
  have "filter (\<lambda>m. case expiresAt m of None \<Rightarrow> True | Some x \<Rightarrow> now env < x) xs
          = filter (\<lambda>m. expiresAt m = None \<or> (\<exists>x. expiresAt m = Some x \<and> now env < x)) xs"
    for xs :: "Notification list"
    by (rule filter_cong) (auto split: option.splits)
  then have "notifications (cleanup env s)
           = filter (\<lambda>m. expiresAt m = None \<or> (\<exists>x. expiresAt m = Some x \<and> now env < x))
               (notifications s)"
    by (simp add: cleanup_def saveNotificationsToStorage_def)
  then show ?thesis
    using assms by (simp add: getNotifications_unfiltered)
qed

theorem expiry_only_on_cleanup_witness:
  "expiredStub \<in> set (notifications expiryService)
   \<and> expiresAt expiredStub = Some 500 \<and> 500 < now demoEnv
   \<and> getNotifications ''farmer1'' (Some noFilters) expiryService
        = [unreadStub ''fresh'', expiredStub, (unreadStub ''later'')\<lparr>expiresAt := Some 2000\<rparr>]
   \<and> notifications (cleanup demoEnv expiryService)
        = [unreadStub ''fresh'', (unreadStub ''later'')\<lparr>expiresAt := Some 2000\<rparr>]"
proof -
  have h1: "expiredStub \<in> set (notifications expiryService)"
    by (simp add: expiryService_def)
  have h2: "expiresAt expiredStub = Some 500"
    by (simp add: expiredStub_def)
  have h3: "500 < now demoEnv"
    by (simp add: demoEnv_def)
  show ?thesis
    using h1 h2 h3 expiry_only_on_cleanup [OF h1 h2 h3, of "''farmer1''"]
    by (simp add: expiryService_def expiredStub_def unreadStub_def demoEnv_def)
qed

text \<open>
  Claim C10 (limit 0 and isRead false). A limit of 0 is ignored: the query
  returns what it returns without a limit, and with no other filter the whole
  store, so the result is empty only when nothing passes the other filters.
  A read filter of \<open>false\<close> is applied: the result is the unread part of what
  the query returns without the read filter.
\<close>

theorem limit_zero_ignored_isRead_false_honoured:
  "getNotifications u (Some (f\<lparr>flimit := Some 0\<rparr>)) s
     = getNotifications u (Some (f\<lparr>flimit := None\<rparr>)) s
   \<and> getNotifications u
        (Some \<lparr> ftype = None, fcategory = None, fisRead = None, flimit = Some 0 \<rparr>) s
     = notifications s
   \<and> getNotifications u (Some (f\<lparr>fisRead := Some False, flimit := Some 0\<rparr>)) s
     = filter (\<lambda>n. \<not> isRead n)
         (getNotifications u (Some (f\<lparr>fisRead := None, flimit := Some 0\<rparr>)) s)
   \<and> getNotifications u
        (Some \<lparr> ftype = None, fcategory = None, fisRead = Some False, flimit = None \<rparr>) s
     = filter (\<lambda>n. \<not> isRead n) (notifications s)"
  by (simp add: getNotifications_def optField_def Let_def)

subsection \<open>What the caller of the query shares with the store\<close>

lemma readArray_newArray: "readArray (snd (newArray rs h)) (fst (newArray rs h)) = rs"
  by (simp add: newArray_def readArray_def)

lemma extends_newArray: "extends h (readArray h store) (newArray (readArray h store) h)"
  by (simp add: extends_def newArray_def readArray_def)

lemma extends_filterArray: "extends h0 rs0 ah \<Longrightarrow> extends h0 rs0 (filterArray p ah)"
  unfolding extends_def filterArray_def
  by (auto simp: readArray_newArray) (auto simp: newArray_def)

lemma set_slice0: "set (slice0 k xs) \<subseteq> set xs"
  by (auto simp: slice0_def dest: in_set_takeD)

lemma extends_sliceArray: "extends h0 rs0 ah \<Longrightarrow> extends h0 rs0 (sliceArray k ah)"
  unfolding extends_def sliceArray_def
  using set_slice0 [of k "readArray (snd ah) (fst ah)"]
  by (auto simp: readArray_newArray) (auto simp: newArray_def)

lemma extends_getNotificationsH:
  "extends h (readArray h store) (getNotificationsH u f store h)"
  by (simp add: getNotificationsH_def Let_def extends_newArray extends_filterArray
      extends_sliceArray split: option.splits)

lemma filter_deref:
  "map f rs = map Some ns \<Longrightarrow>
   map f (filter (\<lambda>r. case f r of None \<Rightarrow> False | Some n \<Rightarrow> p n) rs) = map Some (filter p ns)"
  by (induction rs arbitrary: ns) auto

lemma slice0_map: "slice0 k (map f xs) = map f (slice0 k xs)"
  by (simp add: slice0_def take_map)

lemma represents_newArray:
  "contents h store = map Some ns \<Longrightarrow> represents h ns (newArray (readArray h store) h)"
  by (simp add: represents_def contents_def readArray_newArray) (simp add: newArray_def)

lemma represents_filterArray:
  assumes "represents h0 ns ah"
  shows "represents h0 (filter p ns) (filterArray p ah)"
proof -
  from assms have o: "objects (snd ah) = objects h0"
    and c: "map (objects (snd ah)) (readArray (snd ah) (fst ah)) = map Some ns"
    by (auto simp: represents_def contents_def)
  have "holds (snd ah) p = (\<lambda>r. case objects (snd ah) r of None \<Rightarrow> False | Some n \<Rightarrow> p n)"
    by (rule ext) (simp add: holds_def)
  with filter_deref [OF c, of p] o show ?thesis
    by (simp add: represents_def contents_def filterArray_def readArray_newArray)
       (simp add: newArray_def)
qed

lemma represents_sliceArray:
  assumes "represents h0 ns ah"
  shows "represents h0 (slice0 k ns) (sliceArray k ah)"
proof -
  from assms have o: "objects (snd ah) = objects h0"
    and c: "map (objects (snd ah)) (readArray (snd ah) (fst ah)) = map Some ns"
    by (auto simp: represents_def contents_def)
  have "map (objects (snd ah)) (slice0 k (readArray (snd ah) (fst ah))) = map Some (slice0 k ns)"
    using c by (simp add: slice0_map [symmetric])
  with o show ?thesis
    by (simp add: represents_def contents_def sliceArray_def readArray_newArray)
       (simp add: newArray_def)
qed

text \<open>The query on the heap returns an array that shows the result of the query on lists.\<close>

lemma getNotificationsH_represents:
  assumes "contents h store = map Some (notifications s)"
  shows "represents h (getNotifications u f s) (getNotificationsH u f store h)"
  using represents_newArray [OF assms]
  by (simp add: getNotificationsH_def getNotifications_def Let_def represents_filterArray
      represents_sliceArray split: option.splits)

lemma sharedQuery_eq:
  "sharedQuery = (2, sharedHeap\<lparr>arrays := (arrays sharedHeap)(2 \<mapsto> [0]), nextRef := 3\<rparr>)"
  by (simp add: sharedQuery_def getNotificationsH_def optField_def newArray_def readArray_def
      sharedHeap_def)

text \<open>
  Claim C9, as stated, fails. On a heap whose store holds one unread
  notification, the caller queries without filters and sets \<open>isRead\<close> on the
  first record of the returned list: the store's own collection then shows
  the notification as read. The record in the list is the store's record.
\<close>

theorem query_records_shared_counterexample:
  "contents sharedHeap 1 = [Some (unreadStub ''a'')]
   \<and> contents (writeIsRead (hd (readArray (snd sharedQuery) (fst sharedQuery))) True
                 (snd sharedQuery)) 1
       = [Some ((unreadStub ''a'')\<lparr>isRead := True\<rparr>)]
   \<and> contents (writeIsRead (hd (readArray (snd sharedQuery) (fst sharedQuery))) True
                 (snd sharedQuery)) 1
       \<noteq> contents sharedHeap 1"
  by (simp add: sharedQuery_eq contents_def readArray_def writeIsRead_def sharedHeap_def
      unreadStub_def)

text \<open>
  Claim C9, amended. On a heap where the store's array is allocated and
  shows the notifications of the service, for every filter combination: the
  query returns a newly allocated array, different from the store's array and
  from the array of any later call; this array shows the result of
  \<open>getNotifications\<close>; the store's collection is unchanged by the call, and stays
  unchanged when the caller overwrites the returned array with any list of
  addresses. The addresses in the returned array are addresses of the store's
  array: the records are shared, not copied.
\<close>

theorem query_returns_fresh_list:
  assumes "store < nextRef h" and "contents h store = map Some (notifications s)"
  shows "nextRef h \<le> fst (getNotificationsH u f store h)
       \<and> fst (getNotificationsH u f store h) \<noteq> store
       \<and> fst (getNotificationsH u' f' store (snd (getNotificationsH u f store h)))
           \<noteq> fst (getNotificationsH u f store h)
       \<and> contents (snd (getNotificationsH u f store h)) (fst (getNotificationsH u f store h))
           = map Some (getNotifications u f s)
       \<and> contents (snd (getNotificationsH u f store h)) store = contents h store
       \<and> contents (writeArray (fst (getNotificationsH u f store h)) rs
                     (snd (getNotificationsH u f store h))) store
           = contents h store
       \<and> set (readArray (snd (getNotificationsH u f store h))
                 (fst (getNotificationsH u f store h)))
           \<subseteq> set (readArray h store)"
proof -
  define r where "r = getNotificationsH u f store h"
  have e: "extends h (readArray h store) r"
    unfolding r_def by (rule extends_getNotificationsH)
  have e2: "extends (snd r) (readArray (snd r) store) (getNotificationsH u' f' store (snd r))"
    by (rule extends_getNotificationsH)
  have p: "contents (snd r) (fst r) = map Some (getNotifications u f s)"
    using getNotificationsH_represents [OF assms(2), of u f]
    by (simp add: represents_def r_def)
  from e assms(1) have "nextRef h \<le> fst r" "fst r \<noteq> store" "objects (snd r) = objects h"
    "arrays (snd r) store = arrays h store"
    "set (readArray (snd r) (fst r)) \<subseteq> set (readArray h store)"
    by (auto simp: extends_def)
  moreover from e e2 have "fst (getNotificationsH u' f' store (snd r)) \<noteq> fst r"
    by (auto simp: extends_def)
  ultimately show ?thesis
    using p unfolding r_def [symmetric]
    by (simp add: contents_def readArray_def writeArray_def)
qed

theorem query_returns_fresh_list_witness:
  "(1::nat) < nextRef sharedHeap
   \<and> contents sharedHeap 1
        = map Some (notifications (emptyService\<lparr>notifications := [unreadStub ''a'']\<rparr>))
   \<and> fst sharedQuery \<noteq> 1
   \<and> contents (snd sharedQuery) (fst sharedQuery) = [Some (unreadStub ''a'')]
   \<and> contents (writeArray (fst sharedQuery) [] (snd sharedQuery)) 1 = [Some (unreadStub ''a'')]"
proof -
  have h: "(1::nat) < nextRef sharedHeap"
    by (simp add: sharedHeap_def)
  have c: "contents sharedHeap 1
        = map Some (notifications (emptyService\<lparr>notifications := [unreadStub ''a'']\<rparr>))"
    by (simp add: contents_def readArray_def sharedHeap_def)
  show ?thesis
    using h c query_returns_fresh_list [OF h c, of "''farmer1''" None "''farmer1''" None "[]"]
    by (simp add: sharedQuery_def getNotifications_unfiltered)
qed

end
